theory Spec2Isabelle
  imports Complex_Main
begin

section \<open>Python values and dictionaries\<close>

text \<open>
  The result of an adapter call and the metadata record are Python dictionaries from
  strings to JSON-like values. \<open>PNone\<close> is Python's \<open>None\<close>. A \<open>float\<close> is modelled
  as a real number: prices are decimal constants and the rounding of IEEE arithmetic is
  not part of the model.
\<close>

datatype pyval = PNone | PBool bool | PInt int | PFloat real | PStr string

text \<open>A dictionary keeps its insertion order, so it is an association list.\<close>

type_synonym pydict = "(string \<times> pyval) list"

text \<open>Truth value of an object, as \<open>if x:\<close> and \<open>x or y\<close> test it.\<close>

fun truthy :: "pyval \<Rightarrow> bool" where
  "truthy PNone = False"
| "truthy (PBool b) = b"
| "truthy (PInt n) = (n \<noteq> 0)"
| "truthy (PFloat x) = (x \<noteq> 0)"
| "truthy (PStr s) = (s \<noteq> [])"

text \<open>\<open>d.get(k)\<close> is \<open>None\<close> for a missing key; \<open>d.get(k, default)\<close> the default.\<close>

definition dict_get :: "pydict \<Rightarrow> string \<Rightarrow> pyval" where
  "dict_get d k = (case map_of d k of None \<Rightarrow> PNone | Some v \<Rightarrow> v)"

definition dict_get_default :: "pydict \<Rightarrow> string \<Rightarrow> pyval \<Rightarrow> pyval" where
  "dict_get_default d k dflt = (case map_of d k of None \<Rightarrow> dflt | Some v \<Rightarrow> v)"

text \<open>\<open>d[k] = v\<close>: an existing key keeps its position, a new key is appended.\<close>

fun dict_set :: "pydict \<Rightarrow> string \<Rightarrow> pyval \<Rightarrow> pydict" where
  "dict_set [] k v = [(k, v)]"
| "dict_set ((k', v') # d) k v =
     (if k' = k then (k, v) # d else (k', v') # dict_set d k v)"

text \<open>The exceptions the modelled code raises itself, each with its message.\<close>

datatype error = ValueError string | KeyError string

text \<open>
  \<open>x or default\<close> on an \<open>Optional[str]\<close>: \<open>None\<close> and the empty string are both
  falsy, so both give the default.
\<close>

definition str_or :: "string option \<Rightarrow> string \<Rightarrow> string" where
  "str_or x dflt = (case x of None \<Rightarrow> dflt | Some s \<Rightarrow> if s = [] then dflt else s)"

section \<open>pricing.py\<close>

definition GOOGLE_PRICING :: "(string \<times> real) list" where
  "GOOGLE_PRICING = [(''1K'', 134 / 1000), (''2K'', 134 / 1000), (''4K'', 24 / 100)]"

definition OPENAI_PRICING :: "(string \<times> real) list" where
  "OPENAI_PRICING = [(''low'', 9 / 1000), (''medium'', 34 / 1000), (''high'', 133 / 1000)]"

definition DEFAULT_PROVIDER :: string where
  "DEFAULT_PROVIDER = ''openai''"

definition DEFAULT_RESOLUTION :: string where
  "DEFAULT_RESOLUTION = ''1K''"

definition DEFAULT_QUALITY :: string where
  "DEFAULT_QUALITY = ''low''"

text \<open>\<open>table[k]\<close> raises \<open>KeyError\<close> on a missing key.\<close>

definition subscript :: "(string \<times> real) list \<Rightarrow> string \<Rightarrow> error + real" where
  "subscript table k = (case map_of table k of None \<Rightarrow> Inl (KeyError k) | Some c \<Rightarrow> Inr c)"

text \<open>
  \<open>table.get(k, table[d])\<close>: the default argument is evaluated first, so a missing
  default key raises even when \<open>k\<close> is present.
\<close>

definition get_or_default :: "(string \<times> real) list \<Rightarrow> string \<Rightarrow> string \<Rightarrow> error + real" where
  "get_or_default table k d =
     (case subscript table d of
        Inl e \<Rightarrow> Inl e
      | Inr dflt \<Rightarrow> Inr (case map_of table k of None \<Rightarrow> dflt | Some c \<Rightarrow> c))"

definition get_image_cost :: "string option \<Rightarrow> string option \<Rightarrow> string option \<Rightarrow> error + real" where
  "get_image_cost provider resolution quality =
     (let provider = str_or provider DEFAULT_PROVIDER in
      if provider = ''google'' then
        (let resolution = str_or resolution DEFAULT_RESOLUTION
         in get_or_default GOOGLE_PRICING resolution DEFAULT_RESOLUTION)
      else if provider = ''openai'' then
        (let quality = str_or quality DEFAULT_QUALITY
         in get_or_default OPENAI_PRICING quality DEFAULT_QUALITY)
      else Inr 0)"

definition calculate_image_cost :: "string option \<Rightarrow> string option \<Rightarrow> string option \<Rightarrow> error + real" where
  "calculate_image_cost provider quality resolution = get_image_cost provider resolution quality"

section \<open>generator.py: strings and paths\<close>

text \<open>\<open>s.rstrip(os.sep)\<close> on a POSIX system: every trailing \<open>/\<close> is removed.\<close>

definition rstrip_sep :: "string \<Rightarrow> string" where
  "rstrip_sep s = rev (dropWhile (\<lambda>c. c = CHR ''/'') (rev s))"

text \<open>\<open>os.path.join(a, b)\<close> of \<open>posixpath\<close>, for two components.\<close>

definition path_join :: "string \<Rightarrow> string \<Rightarrow> string" where
  "path_join a b =
     (if b \<noteq> [] \<and> hd b = CHR ''/'' then b
      else if a = [] \<or> last a = CHR ''/'' then a @ b
      else a @ ''/'' @ b)"

text \<open>\<open>name.rsplit(".", 1)[0]\<close>: the text before the last dot, all of it without a dot.\<close>

definition rsplit_dot_head :: "string \<Rightarrow> string" where
  "rsplit_dot_head s =
     (if CHR ''.'' \<in> set s then rev (tl (dropWhile (\<lambda>c. c \<noteq> CHR ''.'') (rev s))) else s)"

text \<open>Decimal digits of a natural number, most significant first.\<close>

definition digit_char :: "nat \<Rightarrow> char" where
  "digit_char d = char_of (48 + d)"

fun digits :: "nat \<Rightarrow> string" where
  "digits n = (if n < 10 then [digit_char n] else digits (n div 10) @ [digit_char (n mod 10)])"

declare digits.simps [simp del]

text \<open>
  The format \<open>{i:03d}\<close>: the decimal representation padded with zeros to width three,
  the sign of a negative number counting towards the width.
\<close>

definition zfill :: "nat \<Rightarrow> string \<Rightarrow> string" where
  "zfill w s = replicate (w - length s) CHR ''0'' @ s"

definition fmt_03d :: "int \<Rightarrow> string" where
  "fmt_03d i = (if i < 0 then CHR ''-'' # zfill 2 (digits (nat (- i))) else zfill 3 (digits (nat i)))"

text \<open>\<open>sep.join(lines)\<close>.\<close>

fun join_with :: "string \<Rightarrow> string list \<Rightarrow> string" where
  "join_with sep [] = []"
| "join_with sep [x] = x"
| "join_with sep (x # y # zs) = x @ sep @ join_with sep (y # zs)"

section \<open>generator.py: the observable effects\<close>

text \<open>
  The arguments one slot's task passes to \<open>provider.generate_image\<close>: the three positional
  ones and the six keyword arguments.
\<close>

record request =
  req_prompt :: string
  req_output_dir :: string
  req_filename :: string
  req_aspect_ratio :: "string option"
  req_resolution :: "string option"
  req_quality :: "string option"
  req_reference_images :: "string list"
  req_model :: "string option"
  req_input_fidelity :: "string option"

text \<open>
  An exception of class \<open>Exception\<close> raised by an adapter, with the text \<open>str(e)\<close>.
\<close>

datatype exn = Exception string

text \<open>
  A provider adapter: its \<open>name\<close> attribute, \<open>get_generate_model()\<close> and
  \<open>generate_image\<close>, which returns a result dictionary or raises. Writing the image
  file is the adapter's own effect and happens inside that call.
\<close>

record provider =
  prov_name :: string
  prov_generate_model :: string
  prov_generate_image :: "request \<Rightarrow> exn + pydict"

text \<open>
  What a run does to the outside world, in order. \<open>Submit i req\<close> is the task of slot
  \<open>i\<close> handed to the thread pool, which runs \<open>generate_single_image\<close> and with it the
  adapter call for \<open>req\<close>. \<open>WriteJson path record\<close> is the metadata sidecar written by
  \<open>json.dump\<close>. The other events stand for console output and carry the values the
  printed lines are formatted from:
  \<open>PrintPreInfo variations provider_name model estimated_cost output_dir\<close> for the
  block before the dry-run test, \<open>PrintDryRun\<close> for the dry-run note,
  \<open>PrintSlot i variations filename ok\<close> for the line of one slot (check mark or
  cross), \<open>PrintSummary successful failed errors actual_cost output_dir\<close> for the
  summary, and \<open>PrintError e\<close> for the \<open>Error: ...\<close> line of the command line tool.
\<close>

datatype event =
    PrintPreInfo int string string real string
  | PrintDryRun
  | Submit int request
  | PrintSlot int int string bool
  | WriteJson string pydict
  | PrintSummary int int "(string \<times> pyval) list" real string
  | PrintError error

section \<open>generator.py: save\_metadata\_file\<close>

text \<open>
  The dictionary built by \<open>save_metadata_file\<close>. The three required arguments are
  strings; the optional ones and the keyword arguments are arbitrary values, \<open>PNone\<close>
  when not given.
\<close>

definition metadata_record ::
  "string \<Rightarrow> string \<Rightarrow> string \<Rightarrow> pyval \<Rightarrow> pyval \<Rightarrow> pyval \<Rightarrow> pyval \<Rightarrow> pyval \<Rightarrow> pydict \<Rightarrow> pydict" where
  "metadata_record original_prompt provider model revised_prompt created quality size' cost_usd kwargs =
     (let metadata = [(''original_prompt'', PStr original_prompt),
                      (''provider'', PStr provider),
                      (''model'', PStr model)];
          metadata = (if revised_prompt \<noteq> PNone \<and> revised_prompt \<noteq> PStr original_prompt
                      then dict_set metadata ''revised_prompt'' revised_prompt else metadata);
          metadata = (if created \<noteq> PNone then dict_set metadata ''created'' created else metadata);
          metadata = (if quality \<noteq> PNone then dict_set metadata ''quality'' quality else metadata);
          metadata = (if size' \<noteq> PNone then dict_set metadata ''size'' size' else metadata);
          metadata = (if cost_usd \<noteq> PNone then dict_set metadata ''cost_usd'' cost_usd else metadata)
      in fold (\<lambda>(key, val) metadata. if val \<noteq> PNone then dict_set metadata key val else metadata)
           kwargs metadata)"

definition save_metadata_file ::
  "string \<Rightarrow> string \<Rightarrow> string \<Rightarrow> string \<Rightarrow> string \<Rightarrow> pyval \<Rightarrow> pyval \<Rightarrow> pyval \<Rightarrow> pyval \<Rightarrow> pyval \<Rightarrow> pydict \<Rightarrow> event" where
  "save_metadata_file output_dir filename original_prompt provider model
       revised_prompt created quality size' cost_usd kwargs =
     (let base_name = rsplit_dot_head filename;
          json_filename = base_name @ ''.json'';
          json_path = path_join output_dir json_filename
      in WriteJson json_path
           (metadata_record original_prompt provider model revised_prompt created quality size'
              cost_usd kwargs))"

section \<open>generator.py: check\_file\_collisions and format\_collision\_error\<close>

text \<open>
  The file system is seen through \<open>os.path.exists\<close>, a predicate on paths. The loop
  runs over \<open>range(1, variations + 1)\<close> with the list of collisions found so far.
\<close>

fun collisions_loop :: "(string \<Rightarrow> bool) \<Rightarrow> string \<Rightarrow> int list \<Rightarrow> string list \<Rightarrow> string list" where
  "collisions_loop exists output_dir [] collisions = collisions"
| "collisions_loop exists output_dir (i # rest) collisions =
     (let filename = ''imggen_'' @ fmt_03d i @ ''.png'';
          filepath = path_join output_dir filename
      in collisions_loop exists output_dir rest
           (if exists filepath then collisions @ [filename] else collisions))"

definition check_file_collisions :: "(string \<Rightarrow> bool) \<Rightarrow> string \<Rightarrow> int \<Rightarrow> bool \<times> string list" where
  "check_file_collisions exists output_dir variations =
     (let collisions = collisions_loop exists output_dir [1..variations] []
      in (length collisions > 0, collisions))"

definition format_collision_error :: "string list \<Rightarrow> string \<Rightarrow> string" where
  "format_collision_error collisions output_dir =
     (let lines = [''Error: File collision detected'', ''''];
          lines = lines @ [''The following files already exist in '' @ output_dir @ '':''];
          lines = lines @ map (\<lambda>filename. ''  - '' @ filename) collisions;
          lines = lines @ [''''];
          lines = lines @ [''Please:''];
          lines = lines @ [''  1. Delete or rename these files, OR''];
          lines = lines @ [''  2. Use a different --output directory''];
          lines = lines @ [''''];
          lines = lines @ [''No API calls were made (no charges incurred).'']
      in join_with [CHR 0x0A] lines)"

section \<open>generator.py: generate\_single\_image\<close>

text \<open>
  The adapter's result is passed on; an exception becomes a failed result with the
  exception text and no other key.
\<close>

definition generate_single_image :: "provider \<Rightarrow> request \<Rightarrow> pydict" where
  "generate_single_image provider req =
     (case prov_generate_image provider req of
        Inr result \<Rightarrow> result
      | Inl (Exception msg) \<Rightarrow> [(''status'', PStr ''failed''), (''error'', PStr msg)])"

section \<open>generator.py: generate\_from\_prompt\<close>

text \<open>
  The package \<open>imggen.providers\<close> and the module \<open>imggen.config\<close> are outside the
  verified code. The three functions \<open>generate_from_prompt\<close> imports from them are
  parameters; those that can raise return an error.
\<close>

record env =
  infer_provider_from_model :: "string \<Rightarrow> string"
  get_api_key_for_provider :: "string \<Rightarrow> error + string"
  get_provider :: "string \<Rightarrow> string \<Rightarrow> error + provider"

text \<open>
  Lines 208 to 213: a non-empty \<open>model\<close> overrides the provider name and the key.
\<close>

definition determine_provider ::
  "env \<Rightarrow> string option \<Rightarrow> string \<Rightarrow> string \<Rightarrow> error + (string \<times> provider)" where
  "determine_provider e model provider_name api_key =
     (case (case model of
              None \<Rightarrow> Inr (provider_name, api_key)
            | Some m \<Rightarrow>
                if m \<noteq> [] then
                  (let provider_name = infer_provider_from_model e m
                   in case get_api_key_for_provider e provider_name of
                        Inl err \<Rightarrow> Inl err
                      | Inr api_key \<Rightarrow> Inr (provider_name, api_key))
                else Inr (provider_name, api_key)) of
        Inl err \<Rightarrow> Inl err
      | Inr (provider_name, api_key) \<Rightarrow>
          (case get_provider e provider_name api_key of
             Inl err \<Rightarrow> Inl err
           | Inr p \<Rightarrow> Inr (provider_name, p)))"

text \<open>
  Lines 260 to 272: the arguments of the task of one slot. All slots share them but for
  the file name.
\<close>

definition slot_request ::
  "string \<Rightarrow> string \<Rightarrow> string option \<Rightarrow> string option \<Rightarrow> string option \<Rightarrow> string list \<Rightarrow>
   string option \<Rightarrow> string option \<Rightarrow> string \<Rightarrow> request" where
  "slot_request prompt output_dir aspect_ratio resolution quality reference_images model
       input_fidelity filename =
     \<lparr>req_prompt = prompt, req_output_dir = output_dir, req_filename = filename,
      req_aspect_ratio = aspect_ratio, req_resolution = resolution, req_quality = quality,
      req_reference_images = reference_images, req_model = model,
      req_input_fidelity = input_fidelity\<rparr>"

text \<open>
  Lines 257 to 273: one task per slot, in slot order. A future is the slot number, the
  file name and the result its task produces.
\<close>

fun submit_loop :: "provider \<Rightarrow> (string \<Rightarrow> request) \<Rightarrow> int list \<Rightarrow> (int \<times> string \<times> pydict) list" where
  "submit_loop p mk [] = []"
| "submit_loop p mk (i # rest) =
     (let filename = ''imggen_'' @ fmt_03d i @ ''.png''
      in (i, filename, generate_single_image p (mk filename)) # submit_loop p mk rest)"

text \<open>
  \<open>as_completed(futures)\<close> yields the futures in the order in which they complete.
  That order is not determined by the program: it is the parameter \<open>order\<close>, a list of
  slot numbers. A number that names no submitted slot yields nothing.
\<close>

definition as_completed :: "(int \<times> string \<times> pydict) list \<Rightarrow> int list \<Rightarrow> (int \<times> string \<times> pydict) list" where
  "as_completed futures order =
     List.map_filter
       (\<lambda>i. case map_of futures i of None \<Rightarrow> None | Some (filename, result) \<Rightarrow> Some (i, filename, result))
       order"

text \<open>
  Lines 276 to 286: results are stored by slot number; the loop is left at the first
  result whose \<open>rate_limited\<close> entry is truthy. The second component is the flag
  \<open>rate_limited\<close>.
\<close>

fun collect_results ::
  "(int \<times> string \<times> pydict) list \<Rightarrow> (int \<rightharpoonup> string \<times> pydict) \<Rightarrow> (int \<rightharpoonup> string \<times> pydict) \<times> bool" where
  "collect_results [] results = (results, False)"
| "collect_results ((i, filename, result) # rest) results =
     (let results = results(i \<mapsto> (filename, result))
      in if truthy (dict_get result ''rate_limited'') then (results, True)
         else collect_results rest results)"

text \<open>
  Lines 288 to 318. The counters, the error lines and the output made so far are the
  state of the loop. An error line is kept as the file name and the value printed after
  it. \<open>result["status"]\<close> raises \<open>KeyError\<close> when the key is missing.
\<close>

record tally =
  successful :: int
  failed :: int
  errors :: "(string \<times> pyval) list"
  shown :: "event list"

definition display_slot ::
  "provider \<Rightarrow> string \<Rightarrow> string \<Rightarrow> int \<Rightarrow> (int \<rightharpoonup> string \<times> pydict) \<Rightarrow> tally \<Rightarrow> int \<Rightarrow> error + tally" where
  "display_slot p prompt output_dir variations results t i =
     (case results i of
        None \<Rightarrow> Inr t
      | Some (filename, result) \<Rightarrow>
          (case map_of result ''status'' of
             None \<Rightarrow> Inl (KeyError ''status'')
           | Some status \<Rightarrow>
               if status = PStr ''success'' then
                 Inr (t\<lparr>successful := successful t + 1,
                        shown := shown t @
                          [PrintSlot i variations filename True,
                           save_metadata_file output_dir filename prompt (prov_name p)
                             (prov_generate_model p)
                             (dict_get result ''revised_prompt'')
                             (dict_get result ''created'')
                             (dict_get result ''quality'')
                             (dict_get result ''size'')
                             (dict_get result ''cost_usd'')
                             [(''model_version'', dict_get result ''model_version''),
                              (''response_id'', dict_get result ''response_id''),
                              (''finish_reason'', dict_get result ''finish_reason''),
                              (''prompt_tokens'', dict_get result ''prompt_tokens''),
                              (''output_tokens'', dict_get result ''output_tokens'')]]\<rparr>)
               else
                 Inr (t\<lparr>failed := failed t + 1,
                        errors := errors t @
                          [(filename, dict_get_default result ''error'' (PStr ''Unknown error''))],
                        shown := shown t @ [PrintSlot i variations filename False]\<rparr>)))"

fun display_loop ::
  "provider \<Rightarrow> string \<Rightarrow> string \<Rightarrow> int \<Rightarrow> (int \<rightharpoonup> string \<times> pydict) \<Rightarrow> tally \<Rightarrow> int list \<Rightarrow> error option \<times> tally" where
  "display_loop p prompt output_dir variations results t [] = (None, t)"
| "display_loop p prompt output_dir variations results t (i # rest) =
     (case display_slot p prompt output_dir variations results t i of
        Inl err \<Rightarrow> (Some err, t)
      | Inr t' \<Rightarrow> display_loop p prompt output_dir variations results t' rest)"

text \<open>
  Lines 245 to 336, the part after the dry-run test. \<open>ThreadPoolExecutor\<close> raises
  \<open>ValueError\<close> for a number of workers below one. Leaving the \<open>with\<close> block waits for
  every submitted task, so each submitted task runs, also after the loop over the
  results was left early. An exception in the block leaves the output made before it.
\<close>

definition run_batch ::
  "provider \<Rightarrow> int list \<Rightarrow> string \<Rightarrow> string list \<Rightarrow> string \<Rightarrow> int \<Rightarrow> string option \<Rightarrow>
   string option \<Rightarrow> string option \<Rightarrow> string option \<Rightarrow> string option \<Rightarrow> real \<Rightarrow> (error + unit) \<times> event list" where
  "run_batch p order prompt reference_images output_dir variations aspect_ratio quality resolution
       model input_fidelity cost_per_image =
     (let max_workers = min 4 variations
      in if max_workers \<le> 0 then (Inl (ValueError ''max_workers must be greater than 0''), [])
         else
           (let mk = slot_request prompt output_dir aspect_ratio resolution quality
                       reference_images model input_fidelity;
                futures = submit_loop p mk [1..variations];
                submitted = map (\<lambda>(i, filename, result). Submit i (mk filename)) futures;
                (results, rate_limited) = collect_results (as_completed futures order) Map.empty;
                (raised, t) = display_loop p prompt output_dir variations results
                                \<lparr>successful = 0, failed = 0, errors = [], shown = []\<rparr> [1..variations]
            in case raised of
                 Some err \<Rightarrow> (Inl err, submitted @ shown t)
               | None \<Rightarrow>
                   (let actual_cost = cost_per_image * of_int (successful t)
                    in (Inr (), submitted @ shown t @
                          [PrintSummary (successful t) (failed t) (errors t) actual_cost output_dir]))))"

text \<open>
  The whole function. The result is the exception that ends the call, if any, and the
  effects in the order in which they happen.
\<close>

definition generate_from_prompt ::
  "env \<Rightarrow> (string \<Rightarrow> bool) \<Rightarrow> int list \<Rightarrow> string \<Rightarrow> string list \<Rightarrow> string \<Rightarrow> int \<Rightarrow> string \<Rightarrow> string \<Rightarrow>
   string option \<Rightarrow> string option \<Rightarrow> string option \<Rightarrow> string option \<Rightarrow> string option \<Rightarrow> bool \<Rightarrow>
   (error + unit) \<times> event list" where
  "generate_from_prompt e exists order prompt reference_images output_dir variations provider_name
       api_key aspect_ratio quality resolution model input_fidelity dry_run =
     (let output_dir = rstrip_sep output_dir;
          (has_collision, collisions) = check_file_collisions exists output_dir variations
      in if has_collision then (Inl (ValueError (format_collision_error collisions output_dir)), [])
         else
           (case determine_provider e model provider_name api_key of
              Inl err \<Rightarrow> (Inl err, [])
            | Inr (provider_name, p) \<Rightarrow>
                (case calculate_image_cost (Some provider_name) quality resolution of
                   Inl err \<Rightarrow> (Inl err, [])
                 | Inr cost_per_image \<Rightarrow>
                     (let estimated_cost = cost_per_image * of_int variations;
                          pre = [PrintPreInfo variations provider_name (prov_generate_model p)
                                   estimated_cost output_dir]
                      in if dry_run then (Inr (), pre @ [PrintDryRun])
                         else
                           (case run_batch p order prompt reference_images output_dir variations
                                   aspect_ratio quality resolution model input_fidelity
                                   cost_per_image of
                              (outcome, effects) \<Rightarrow> (outcome, pre @ effects))))))"

section \<open>cli.py: the call of generate\_from\_prompt\<close>

text \<open>
  Lines 307 to 324 of \<open>main\<close>: any exception of the call is printed and the process
  exits with status 1; otherwise \<open>main\<close> returns and the status is 0.
\<close>

definition cli_generate ::
  "env \<Rightarrow> (string \<Rightarrow> bool) \<Rightarrow> int list \<Rightarrow> string \<Rightarrow> string list \<Rightarrow> string \<Rightarrow> int \<Rightarrow> string \<Rightarrow> string \<Rightarrow>
   string option \<Rightarrow> string option \<Rightarrow> string option \<Rightarrow> string option \<Rightarrow> string option \<Rightarrow> bool \<Rightarrow>
   int \<times> event list" where
  "cli_generate e exists order prompt reference_images output_dir variations provider_name
       api_key aspect_ratio quality resolution model input_fidelity dry_run =
     (case generate_from_prompt e exists order prompt reference_images output_dir variations
             provider_name api_key aspect_ratio quality resolution model input_fidelity dry_run of
        (Inl err, effects) \<Rightarrow> (1, effects @ [PrintError err])
      | (Inr u, effects) \<Rightarrow> (0, effects))"

section \<open>Notions used to state the properties\<close>

text \<open>
  These are not code of the program. \<open>slot_status results i\<close> is the status entry of
  the result collected for slot \<open>i\<close>, if there is one. \<open>slot_output\<close> is what the body
  of the display loop prints and writes for slot \<open>i\<close> when it is run on its own.
\<close>

definition slot_status :: "(int \<rightharpoonup> string \<times> pydict) \<Rightarrow> int \<Rightarrow> pyval option" where
  "slot_status results i =
     (case results i of None \<Rightarrow> None | Some (filename, result) \<Rightarrow> map_of result ''status'')"


section \<open>Example inputs\<close>

text \<open>
  Two adapters for the concrete runs below. The first raises for the third file and
  succeeds for every other one, reporting a cost of 0.2 for each image. The second also
  answers the second file with a rate-limit failure.
\<close>

definition demo_success :: "string \<Rightarrow> pydict" where
  "demo_success filename =
     [(''status'', PStr ''success''), (''filename'', PStr filename),
      (''revised_prompt'', PStr ''a cat, sitting''), (''quality'', PStr ''''),
      (''cost_usd'', PFloat (2 / 10))]"

definition demo_provider :: provider where
  "demo_provider =
     \<lparr>prov_name = ''openai'', prov_generate_model = ''gpt-image-1.5'',
      prov_generate_image = (\<lambda>req.
        if req_filename req = ''imggen_003.png'' then Inl (Exception ''connection reset'')
        else Inr (demo_success (req_filename req)))\<rparr>"

definition limited_provider :: provider where
  "limited_provider =
     \<lparr>prov_name = ''openai'', prov_generate_model = ''gpt-image-1.5'',
      prov_generate_image = (\<lambda>req.
        if req_filename req = ''imggen_002.png'' then
          Inr [(''status'', PStr ''failed''), (''error'', PStr ''Rate limit exceeded''),
               (''rate_limited'', PBool True)]
        else if req_filename req = ''imggen_003.png'' then Inl (Exception ''connection reset'')
        else Inr (demo_success (req_filename req)))\<rparr>"

definition demo_env :: "provider \<Rightarrow> env" where
  "demo_env p =
     \<lparr>infer_provider_from_model = (\<lambda>m. ''openai''),
      get_api_key_for_provider = (\<lambda>name. Inr ''key''),
      get_provider = (\<lambda>name key. Inr p)\<rparr>"


section \<open>Properties of the pricing lookup\<close>

lemma google_default_present: "subscript GOOGLE_PRICING DEFAULT_RESOLUTION = Inr (134 / 1000)"
  by (simp add: subscript_def GOOGLE_PRICING_def DEFAULT_RESOLUTION_def)

lemma openai_default_present: "subscript OPENAI_PRICING DEFAULT_QUALITY = Inr (9 / 1000)"
  by (simp add: subscript_def OPENAI_PRICING_def DEFAULT_QUALITY_def)

lemma get_image_cost_total: "\<exists>c. get_image_cost provider resolution quality = Inr c"
  by (simp add: get_image_cost_def get_or_default_def Let_def
      google_default_present openai_default_present)

lemmas pricing_defs = get_image_cost_def get_or_default_def subscript_def str_or_def
  GOOGLE_PRICING_def OPENAI_PRICING_def DEFAULT_PROVIDER_def DEFAULT_RESOLUTION_def
  DEFAULT_QUALITY_def

lemma google_cost_default:
  assumes "r = None \<or> r = Some [] \<or> (\<exists>x. r = Some x \<and> x \<notin> {''1K'', ''2K'', ''4K''})"
  shows "get_image_cost (Some ''google'') r q = Inr (134 / 1000)"
proof -
  consider (none) "r = None" | (empty) "r = Some []"
    | (other) x where "r = Some x" "x \<noteq> []" "x \<noteq> ''1K''" "x \<noteq> ''2K''" "x \<noteq> ''4K''"
    using assms by blast
  then show ?thesis
  proof cases
    case none
    then show ?thesis by (simp add: pricing_defs)
  next
    case empty
    then show ?thesis by (simp add: pricing_defs)
  next
    case other
    then show ?thesis by (simp add: pricing_defs)
  qed
qed

lemma openai_cost_default:
  assumes "q = None \<or> q = Some [] \<or> (\<exists>x. q = Some x \<and> x \<notin> {''low'', ''medium'', ''high''})"
  shows "get_image_cost (Some ''openai'') r q = Inr (9 / 1000)"
proof -
  consider (none) "q = None" | (empty) "q = Some []"
    | (other) x where "q = Some x" "x \<noteq> []" "x \<noteq> ''low''" "x \<noteq> ''medium''" "x \<noteq> ''high''"
    using assms by blast
  then show ?thesis
  proof cases
    case none
    then show ?thesis by (simp add: pricing_defs)
  next
    case empty
    then show ?thesis by (simp add: pricing_defs)
  next
    case other
    then show ?thesis by (simp add: pricing_defs)
  qed
qed

lemma missing_provider_is_openai:
  "get_image_cost None r q = get_image_cost (Some ''openai'') r q"
  "get_image_cost (Some []) r q = get_image_cost (Some ''openai'') r q"
  by (simp_all add: get_image_cost_def str_or_def DEFAULT_PROVIDER_def)

text \<open>
  Claim C10 (as amended). The per-image pricing lookup never raises. For a non-empty
  provider name other than "google" and "openai" it returns 0.0. A missing provider
  (\<open>None\<close>) and the empty provider name are replaced by the default provider "openai"
  and priced as such. For "google" a missing, empty or unrecognised resolution gives
  the price of the "1K" tier, for "openai" a missing, empty or unrecognised quality
  gives the price of the "low" tier.
\<close>

theorem pricing_lookup_total:
  "(\<exists>c. calculate_image_cost p q r = Inr c)
   \<and> (s \<noteq> [] \<and> s \<noteq> ''google'' \<and> s \<noteq> ''openai''
        \<longrightarrow> calculate_image_cost (Some s) q r = Inr 0)
   \<and> calculate_image_cost None q r = calculate_image_cost (Some ''openai'') q r
   \<and> calculate_image_cost (Some []) q r = calculate_image_cost (Some ''openai'') q r
   \<and> (r = None \<or> r = Some [] \<or> (\<exists>x. r = Some x \<and> x \<notin> {''1K'', ''2K'', ''4K''})
        \<longrightarrow> calculate_image_cost (Some ''google'') q r = Inr (134 / 1000))
   \<and> (q = None \<or> q = Some [] \<or> (\<exists>x. q = Some x \<and> x \<notin> {''low'', ''medium'', ''high''})
        \<longrightarrow> calculate_image_cost (Some ''openai'') q r = Inr (9 / 1000))"
proof (intro conjI impI)
  show "\<exists>c. calculate_image_cost p q r = Inr c"
    using get_image_cost_total by (simp add: calculate_image_cost_def)
next
  assume "s \<noteq> [] \<and> s \<noteq> ''google'' \<and> s \<noteq> ''openai''"
  then show "calculate_image_cost (Some s) q r = Inr 0"
    by (simp add: calculate_image_cost_def get_image_cost_def str_or_def)
next
  show "calculate_image_cost None q r = calculate_image_cost (Some ''openai'') q r"
    by (simp add: calculate_image_cost_def missing_provider_is_openai)
next
  show "calculate_image_cost (Some []) q r = calculate_image_cost (Some ''openai'') q r"
    by (simp add: calculate_image_cost_def missing_provider_is_openai)
next
  assume "r = None \<or> r = Some [] \<or> (\<exists>x. r = Some x \<and> x \<notin> {''1K'', ''2K'', ''4K''})"
  then show "calculate_image_cost (Some ''google'') q r = Inr (134 / 1000)"
    unfolding calculate_image_cost_def by (rule google_cost_default)
next
  assume "q = None \<or> q = Some [] \<or> (\<exists>x. q = Some x \<and> x \<notin> {''low'', ''medium'', ''high''})"
  then show "calculate_image_cost (Some ''openai'') q r = Inr (9 / 1000)"
    unfolding calculate_image_cost_def by (rule openai_cost_default)
qed

theorem pricing_lookup_total_witness:
  "calculate_image_cost (Some ''azure'') (Some ''ultra'') (Some ''8K'') = Inr 0
   \<and> calculate_image_cost (Some ''google'') (Some ''ultra'') (Some ''8K'') = Inr (134 / 1000)
   \<and> calculate_image_cost (Some ''openai'') (Some ''ultra'') (Some ''8K'') = Inr (9 / 1000)"
  using pricing_lookup_total [of "Some ''azure''" "Some ''ultra''" "Some ''8K''" "''azure''"]
  by simp

text \<open>
  The claim as stated fails at the empty provider name: it is a provider name other
  than "google" and "openai", and the lookup returns the "low" price of "openai".
\<close>

theorem pricing_empty_provider_counterexample:
  "[] \<noteq> ''google'' \<and> [] \<noteq> ''openai''
   \<and> calculate_image_cost (Some []) None None = Inr (9 / 1000)
   \<and> calculate_image_cost (Some []) None None \<noteq> Inr 0"
  by (simp add: calculate_image_cost_def pricing_defs)

section \<open>File names and the collision check\<close>

lemma upto_1_cases:
  "[1..1] = [1::int]" "[1..2] = [1, 2::int]" "[1..3] = [1, 2, 3::int]" "[1..4] = [1, 2, 3, 4::int]"
  by (simp_all add: upto_rec1)

lemma fmt_03d_small:
  "fmt_03d 1 = ''001''" "fmt_03d 2 = ''002''" "fmt_03d 3 = ''003''" "fmt_03d 4 = ''004''"
  by code_simp+

lemma collisions_loop_filter:
  "collisions_loop exists output_dir slots acc =
     acc @ filter (\<lambda>filename. exists (path_join output_dir filename))
             (map (\<lambda>i. ''imggen_'' @ fmt_03d i @ ''.png'') slots)"
  by (induction slots arbitrary: acc) (simp_all add: Let_def)

lemma check_file_collisions_filter:
  "check_file_collisions exists output_dir variations =
     (let found = filter (\<lambda>filename. exists (path_join output_dir filename))
                    (map (\<lambda>i. ''imggen_'' @ fmt_03d i @ ''.png'') [1..variations])
      in (found \<noteq> [], found))"
  by (simp add: check_file_collisions_def collisions_loop_filter Let_def)

lemma submit_loop_names:
  "map (\<lambda>(i, filename, result). filename) (submit_loop p mk slots)
     = map (\<lambda>i. ''imggen_'' @ fmt_03d i @ ''.png'') slots"
  by (induction slots) (simp_all add: Let_def)

lemma submit_loop_slots:
  "map fst (submit_loop p mk slots) = slots"
  by (induction slots) (simp_all add: Let_def)

lemma count_cases:
  "1 \<le> count \<Longrightarrow> count \<le> 4 \<Longrightarrow> count = 1 \<or> count = 2 \<or> count = 3 \<or> count = (4::int)"
  by arith

text \<open>
  Claim C6. For a count from 1 to 4 the file names assigned to the slots are
  imggen_001.png up to the name with the count as number, one per slot in slot order
  and without repetition, and the collision check tests exactly these names (it returns
  them all when every path exists). There is no base name among the arguments.
\<close>

theorem default_filenames:
  assumes "1 \<le> count" and "count \<le> 4"
  shows "map (\<lambda>(i, filename, result). filename) (submit_loop p mk [1..count])
           = take (nat count) [''imggen_001.png'', ''imggen_002.png'', ''imggen_003.png'', ''imggen_004.png'']
         \<and> snd (check_file_collisions (\<lambda>path. True) output_dir count)
           = take (nat count) [''imggen_001.png'', ''imggen_002.png'', ''imggen_003.png'', ''imggen_004.png'']
         \<and> map fst (submit_loop p mk [1..count]) = [1..count]
         \<and> distinct (take (nat count)
              [''imggen_001.png'', ''imggen_002.png'', ''imggen_003.png'', ''imggen_004.png''])"
proof -
  from assms have "count = 1 \<or> count = 2 \<or> count = 3 \<or> count = 4" by (rule count_cases)
  then show ?thesis
    unfolding submit_loop_names submit_loop_slots check_file_collisions_filter
    by (elim disjE) (simp_all add: upto_1_cases fmt_03d_small)
qed

theorem default_filenames_witness:
  "(1::int) \<le> 3 \<and> (3::int) \<le> 4
   \<and> map (\<lambda>(i, filename, result). filename)
        (submit_loop demo_provider (slot_request ''a cat'' ''out'' None None None [] None None) [1..3])
      = [''imggen_001.png'', ''imggen_002.png'', ''imggen_003.png'']
   \<and> snd (check_file_collisions (\<lambda>path. True) ''out'' 3)
      = [''imggen_001.png'', ''imggen_002.png'', ''imggen_003.png'']"
  using default_filenames [of 3 demo_provider
      "slot_request ''a cat'' ''out'' None None None [] None None" "''out''"]
  by simp

text \<open>
  Claim C3, evaluated on the code. The function has no base name parameter, so the
  calls of the repository's tests \<open>test_check_file_collisions_custom_basename_*\<close>
  raise \<open>TypeError\<close>. Without it the check tests the default names only. In a
  directory where every file exists but imggen_001.png (sunset.png among them) it
  reports no collision for one image; and for the output argument sunset.png, which the
  help text of the command line tool gives as a file name, an existing file sunset.png
  is no collision either, the path tested being sunset.png/imggen_001.png.
\<close>

theorem collision_check_ignores_other_names:
  "(\<lambda>path. path \<noteq> ''out/imggen_001.png'') (path_join ''out'' ''sunset.png'')
   \<and> check_file_collisions (\<lambda>path. path \<noteq> ''out/imggen_001.png'') ''out'' 1 = (False, [])
   \<and> check_file_collisions (\<lambda>path. path = ''sunset.png'') (rstrip_sep ''sunset.png'') 1
       = (False, [])"
  by (simp add: check_file_collisions_filter Let_def upto_1_cases fmt_03d_small path_join_def
      rstrip_sep_def)

text \<open>
  Claim C5, evaluated on the code. The names given to the tasks do not depend on any
  base name: a batch of one image is named imggen_001.png and a batch of two
  imggen_001.png and imggen_002.png, where the repository's tests of the naming rule
  expect sunset.png, and sunset_1.png and sunset_2.png. For the output argument
  sunset.png the image of a batch of one is sunset.png/imggen_001.png.
\<close>

theorem slot_names_are_always_default:
  "map (\<lambda>(i, filename, result). filename) (submit_loop p mk [1..1]) = [''imggen_001.png'']
   \<and> map (\<lambda>(i, filename, result). filename) (submit_loop p mk [1..2])
       = [''imggen_001.png'', ''imggen_002.png'']
   \<and> snd (check_file_collisions (\<lambda>path. True) output_dir 2)
       = [''imggen_001.png'', ''imggen_002.png'']
   \<and> map (\<lambda>(i, filename, result). path_join (rstrip_sep ''sunset.png'') filename)
         (submit_loop p mk [1..1]) = [''sunset.png/imggen_001.png'']"
proof -
  have names: "map (\<lambda>(i, filename, result). path_join (rstrip_sep ''sunset.png'') filename)
                 (submit_loop p mk [1..1])
      = map (path_join (rstrip_sep ''sunset.png''))
          (map (\<lambda>(i, filename, result). filename) (submit_loop p mk [1..1]))"
    by (simp add: split_beta)
  show ?thesis
    unfolding names submit_loop_names check_file_collisions_filter
    by (simp add: upto_1_cases fmt_03d_small path_join_def rstrip_sep_def)
qed

lemma has_collision_iff:
  "fst (check_file_collisions exists output_dir variations) \<longleftrightarrow>
     (\<exists>i\<in>{1..variations}. exists (path_join output_dir (''imggen_'' @ fmt_03d i @ ''.png'')))"
  by (auto simp: check_file_collisions_filter Let_def filter_empty_conv)

text \<open>
  Claim C1. If a target file of the batch exists in the (normalised) output directory,
  \<open>generate_from_prompt\<close> raises \<open>ValueError\<close> with the collision message and has
  no effect at all: no task is submitted, so no adapter call is made and no image is
  written, and no metadata file is written. The command line tool then exits with
  status 1.
\<close>

theorem collision_aborts_before_any_call:
  assumes "\<exists>i\<in>{1..variations}.
             exists (path_join (rstrip_sep output_dir) (''imggen_'' @ fmt_03d i @ ''.png''))"
  shows "generate_from_prompt e exists order prompt reference_images output_dir variations
           provider_name api_key aspect_ratio quality resolution model input_fidelity dry_run
         = (Inl (ValueError (format_collision_error
               (snd (check_file_collisions exists (rstrip_sep output_dir) variations))
               (rstrip_sep output_dir))), [])
       \<and> (\<forall>ev \<in> set (snd (generate_from_prompt e exists order prompt reference_images output_dir
               variations provider_name api_key aspect_ratio quality resolution model
               input_fidelity dry_run)).
             (\<forall>i req. ev \<noteq> Submit i req) \<and> (\<forall>path record. ev \<noteq> WriteJson path record))
       \<and> fst (cli_generate e exists order prompt reference_images output_dir variations
               provider_name api_key aspect_ratio quality resolution model input_fidelity dry_run)
         = 1"
proof -
  from assms have "fst (check_file_collisions exists (rstrip_sep output_dir) variations)"
    by (simp only: has_collision_iff)
  then have run: "generate_from_prompt e exists order prompt reference_images output_dir variations
           provider_name api_key aspect_ratio quality resolution model input_fidelity dry_run
         = (Inl (ValueError (format_collision_error
               (snd (check_file_collisions exists (rstrip_sep output_dir) variations))
               (rstrip_sep output_dir))), [])"
    by (simp add: generate_from_prompt_def Let_def split_beta)
  then show ?thesis
    by (simp add: cli_generate_def)
qed

theorem collision_aborts_before_any_call_witness:
  "(\<exists>i\<in>{1..2}. (\<lambda>path. path = ''out/imggen_001.png'')
       (path_join (rstrip_sep ''out/'') (''imggen_'' @ fmt_03d i @ ''.png'')))
   \<and> generate_from_prompt (demo_env demo_provider) (\<lambda>path. path = ''out/imggen_001.png'')
        [1, 2] ''a cat'' [] ''out/'' 2 ''openai'' ''key'' None None None None None False
      = (Inl (ValueError (format_collision_error [''imggen_001.png''] ''out'')), [])
   \<and> fst (cli_generate (demo_env demo_provider) (\<lambda>path. path = ''out/imggen_001.png'')
        [1, 2] ''a cat'' [] ''out/'' 2 ''openai'' ''key'' None None None None None False) = 1"
proof -
  have dir: "rstrip_sep ''out/'' = ''out''"
    by (simp add: rstrip_sep_def)
  have hyp: "\<exists>i\<in>{1..2}. (\<lambda>path. path = ''out/imggen_001.png'')
       (path_join (rstrip_sep ''out/'') (''imggen_'' @ fmt_03d i @ ''.png''))"
    by (rule bexI [of _ 1]) (simp_all add: dir path_join_def fmt_03d_small)
  have found: "snd (check_file_collisions (\<lambda>path. path = ''out/imggen_001.png'') ''out'' 2)
                 = [''imggen_001.png'']"
    by (simp add: check_file_collisions_filter Let_def upto_1_cases fmt_03d_small path_join_def)
  show ?thesis
    using hyp collision_aborts_before_any_call [OF hyp, of "demo_env demo_provider" "[1, 2]"
        "''a cat''" "[]" "''openai''" "''key''" None None None None None False]
    by (simp add: dir found)
qed

section \<open>The metadata record\<close>

lemma map_of_dict_set:
  "map_of (dict_set d k v) k' = (if k' = k then Some v else map_of d k')"
  by (induction d) auto

lemma keys_dict_set: "set (map fst (dict_set d k v)) = insert k (set (map fst d))"
proof (induction d)
  case Nil
  then show ?case by simp
next
  case (Cons kv d)
  obtain k0 v0 where kv: "kv = (k0, v0)" by (cases kv)
  show ?case
  proof (cases "k0 = k")
    case True
    with kv show ?thesis by simp
  next
    case False
    with kv Cons.IH show ?thesis by (simp add: insert_commute)
  qed
qed

lemma distinct_dict_set:
  "distinct (map fst d) \<Longrightarrow> distinct (map fst (dict_set d k v))"
proof (induction d)
  case Nil
  then show ?case by simp
next
  case (Cons kv d)
  obtain k0 v0 where kv: "kv = (k0, v0)" by (cases kv)
  from Cons.prems kv have notin: "k0 \<notin> set (map fst d)" and dist: "distinct (map fst d)"
    by simp_all
  show ?case
  proof (cases "k0 = k")
    case True
    with kv Cons.prems show ?thesis by simp
  next
    case False
    with notin have "k0 \<notin> set (map fst (dict_set d k v))"
      by (simp only: keys_dict_set) simp
    with False kv Cons.IH [OF dist] show ?thesis by simp
  qed
qed

lemma map_of_cond_set:
  "map_of (if c then dict_set d k v else d) k' = (if c \<and> k' = k then Some v else map_of d k')"
  by (simp add: map_of_dict_set)

lemma distinct_cond_set:
  "distinct (map fst d) \<Longrightarrow> distinct (map fst (if c then dict_set d k v else d))"
  by (simp add: distinct_dict_set)

lemma fold_kwargs_other:
  "k \<notin> fst ` set kwargs \<Longrightarrow>
   map_of (fold (\<lambda>(key, val) metadata. if val \<noteq> PNone then dict_set metadata key val else metadata)
             kwargs md) k = map_of md k"
  by (induction kwargs arbitrary: md) (auto simp: map_of_dict_set)

lemma fold_kwargs_entry:
  "distinct (map fst kwargs) \<Longrightarrow> (k, v) \<in> set kwargs \<Longrightarrow>
   map_of (fold (\<lambda>(key, val) metadata. if val \<noteq> PNone then dict_set metadata key val else metadata)
             kwargs md) k = (if v \<noteq> PNone then Some v else map_of md k)"
proof (induction kwargs arbitrary: md)
  case Nil
  then show ?case by simp
next
  case (Cons kv kwargs)
  obtain k0 v0 where kv: "kv = (k0, v0)" by (cases kv)
  show ?case
  proof (cases "(k, v) = kv")
    case True
    with Cons.prems kv have "k \<notin> fst ` set kwargs" by auto
    with True kv show ?thesis
      by (simp add: fold_kwargs_other map_of_dict_set)
  next
    case False
    with Cons.prems have mem: "(k, v) \<in> set kwargs" and dist: "distinct (map fst kwargs)"
      by auto
    from mem Cons.prems(1) kv have "k \<noteq> k0" by force
    with Cons.IH [OF dist mem] kv show ?thesis
      by (simp add: map_of_dict_set)
  qed
qed

lemma fold_kwargs_distinct:
  "distinct (map fst md) \<Longrightarrow>
   distinct (map fst (fold (\<lambda>(key, val) metadata.
       if val \<noteq> PNone then dict_set metadata key val else metadata) kwargs md))"
  by (induction kwargs arbitrary: md) (auto simp: distinct_dict_set)

text \<open>
  Claim C8. The record written by \<open>save_metadata_file\<close> holds original_prompt,
  provider and model always; revised_prompt exactly when it is not \<open>None\<close> and differs
  from the original prompt, and then unchanged; created, quality, size and cost_usd
  and every keyword argument exactly when the value is not \<open>None\<close> (so the empty string
  and 0.0 are kept); and no other key. Keyword arguments of a Python call have distinct
  names, none of them the name of a parameter of the function.
\<close>

theorem metadata_record_contents:
  assumes "distinct (map fst kwargs)"
    and "set (map fst kwargs) \<inter>
           {''output_dir'', ''filename'', ''original_prompt'', ''provider'', ''model'',
            ''revised_prompt'', ''created'', ''quality'', ''size'', ''cost_usd''} = {}"
    and "md = metadata_record original_prompt prov model revised_prompt created quality sz
                cost_usd kwargs"
  shows "save_metadata_file output_dir filename original_prompt prov model revised_prompt
             created quality sz cost_usd kwargs
           = WriteJson (path_join output_dir (rsplit_dot_head filename @ ''.json'')) md
       \<and> map_of md ''original_prompt'' = Some (PStr original_prompt)
       \<and> map_of md ''provider'' = Some (PStr prov)
       \<and> map_of md ''model'' = Some (PStr model)
       \<and> map_of md ''revised_prompt''
           = (if revised_prompt \<noteq> PNone \<and> revised_prompt \<noteq> PStr original_prompt
              then Some revised_prompt else None)
       \<and> map_of md ''created'' = (if created \<noteq> PNone then Some created else None)
       \<and> map_of md ''quality'' = (if quality \<noteq> PNone then Some quality else None)
       \<and> map_of md ''size'' = (if sz \<noteq> PNone then Some sz else None)
       \<and> map_of md ''cost_usd'' = (if cost_usd \<noteq> PNone then Some cost_usd else None)
       \<and> (\<forall>(k, v) \<in> set kwargs. map_of md k = (if v \<noteq> PNone then Some v else None))
       \<and> (\<forall>k. k \<notin> {''original_prompt'', ''provider'', ''model'', ''revised_prompt'', ''created'',
                     ''quality'', ''size'', ''cost_usd''} \<union> set (map fst kwargs)
              \<longrightarrow> map_of md k = None)
       \<and> distinct (map fst md)"
proof -
  define base where "base =
     (let metadata = [(''original_prompt'', PStr original_prompt),
                      (''provider'', PStr prov),
                      (''model'', PStr model)];
          metadata = (if revised_prompt \<noteq> PNone \<and> revised_prompt \<noteq> PStr original_prompt
                      then dict_set metadata ''revised_prompt'' revised_prompt else metadata);
          metadata = (if created \<noteq> PNone then dict_set metadata ''created'' created else metadata);
          metadata = (if quality \<noteq> PNone then dict_set metadata ''quality'' quality else metadata);
          metadata = (if sz \<noteq> PNone then dict_set metadata ''size'' sz else metadata)
      in (if cost_usd \<noteq> PNone then dict_set metadata ''cost_usd'' cost_usd else metadata))"
  have md: "md = fold (\<lambda>(key, val) metadata.
                if val \<noteq> PNone then dict_set metadata key val else metadata) kwargs base"
    by (simp add: assms(3) metadata_record_def base_def Let_def)
  have base_lookup: "map_of base k =
      (if k = ''cost_usd'' \<and> cost_usd \<noteq> PNone then Some cost_usd
       else if k = ''size'' \<and> sz \<noteq> PNone then Some sz
       else if k = ''quality'' \<and> quality \<noteq> PNone then Some quality
       else if k = ''created'' \<and> created \<noteq> PNone then Some created
       else if k = ''revised_prompt'' \<and> revised_prompt \<noteq> PNone
               \<and> revised_prompt \<noteq> PStr original_prompt then Some revised_prompt
       else if k = ''original_prompt'' then Some (PStr original_prompt)
       else if k = ''provider'' then Some (PStr prov)
       else if k = ''model'' then Some (PStr model)
       else None)" for k
    unfolding base_def Let_def map_of_cond_set by simp
  have base_distinct: "distinct (map fst base)"
    unfolding base_def Let_def
    by (intro distinct_cond_set) simp
  define names where "names = {''output_dir'', ''filename'', ''original_prompt'', ''provider'',
      ''model'', ''revised_prompt'', ''created'', ''quality'', ''size'', ''cost_usd''}"
  have disjoint: "set (map fst kwargs) \<inter> names = {}"
    using assms(2) by (simp only: names_def)
  have untouched: "map_of md k = map_of base k" if "k \<in> names" for k
  proof -
    from that disjoint have "k \<notin> set (map fst kwargs)" by blast
    then have "k \<notin> fst ` set kwargs" by simp
    then show ?thesis unfolding md by (rule fold_kwargs_other)
  qed
  have named: "map_of md k = map_of base k"
    if "k = ''original_prompt'' \<or> k = ''provider'' \<or> k = ''model'' \<or> k = ''revised_prompt''
        \<or> k = ''created'' \<or> k = ''quality'' \<or> k = ''size'' \<or> k = ''cost_usd''" for k
  proof -
    from that have "k \<in> names" unfolding names_def by fastforce
    then show ?thesis by (rule untouched)
  qed
  show ?thesis
  proof (intro conjI)
    show "save_metadata_file output_dir filename original_prompt prov model revised_prompt
             created quality sz cost_usd kwargs
           = WriteJson (path_join output_dir (rsplit_dot_head filename @ ''.json'')) md"
      by (simp add: save_metadata_file_def assms(3))
    show "map_of md ''original_prompt'' = Some (PStr original_prompt)"
      by (simp add: named base_lookup)
    show "map_of md ''provider'' = Some (PStr prov)"
      by (simp add: named base_lookup)
    show "map_of md ''model'' = Some (PStr model)"
      by (simp add: named base_lookup)
    show "map_of md ''revised_prompt''
           = (if revised_prompt \<noteq> PNone \<and> revised_prompt \<noteq> PStr original_prompt
              then Some revised_prompt else None)"
      by (simp add: named base_lookup)
    show "map_of md ''created'' = (if created \<noteq> PNone then Some created else None)"
      by (simp add: named base_lookup)
    show "map_of md ''quality'' = (if quality \<noteq> PNone then Some quality else None)"
      by (simp add: named base_lookup)
    show "map_of md ''size'' = (if sz \<noteq> PNone then Some sz else None)"
      by (simp add: named base_lookup)
    show "map_of md ''cost_usd'' = (if cost_usd \<noteq> PNone then Some cost_usd else None)"
      by (simp add: named base_lookup)
    show "\<forall>(k, v) \<in> set kwargs. map_of md k = (if v \<noteq> PNone then Some v else None)"
    proof (clarify)
      fix k v
      assume mem: "(k, v) \<in> set kwargs"
      then have "k \<in> set (map fst kwargs)" by force
      with disjoint have "k \<notin> names" by blast
      then have "map_of base k = None"
        by (simp add: base_lookup names_def)
      with fold_kwargs_entry [OF assms(1) mem, of base]
      show "map_of md k = (if v \<noteq> PNone then Some v else None)"
        unfolding md by simp
    qed
    show "\<forall>k. k \<notin> {''original_prompt'', ''provider'', ''model'', ''revised_prompt'', ''created'',
                     ''quality'', ''size'', ''cost_usd''} \<union> set (map fst kwargs)
              \<longrightarrow> map_of md k = None"
    proof (intro allI impI)
      fix k
      assume out: "k \<notin> {''original_prompt'', ''provider'', ''model'', ''revised_prompt'',
            ''created'', ''quality'', ''size'', ''cost_usd''} \<union> set (map fst kwargs)"
      then have "k \<notin> fst ` set kwargs" by simp
      then have "map_of md k = map_of base k"
        unfolding md by (rule fold_kwargs_other)
      also from out have "map_of base k = None"
        by (simp add: base_lookup)
      finally show "map_of md k = None" .
    qed
    show "distinct (map fst md)"
      unfolding md using base_distinct by (rule fold_kwargs_distinct)
  qed
qed

theorem metadata_record_contents_witness:
  "distinct (map fst [(''model_version'', PNone), (''output_tokens'', PInt 1120)])
   \<and> set (map fst [(''model_version'', PNone), (''output_tokens'', PInt 1120)]) \<inter>
           {''output_dir'', ''filename'', ''original_prompt'', ''provider'', ''model'',
            ''revised_prompt'', ''created'', ''quality'', ''size'', ''cost_usd''} = {}
   \<and> save_metadata_file ''out'' ''imggen_001.png'' ''a cat'' ''google'' ''gemini''
         (PStr ''a cat'') (PStr '''') PNone (PStr ''1024x1024'') (PFloat 0)
         [(''model_version'', PNone), (''output_tokens'', PInt 1120)]
       = WriteJson ''out/imggen_001.json''
           [(''original_prompt'', PStr ''a cat''), (''provider'', PStr ''google''),
            (''model'', PStr ''gemini''), (''created'', PStr ''''),
            (''size'', PStr ''1024x1024''), (''cost_usd'', PFloat 0),
            (''output_tokens'', PInt 1120)]"
  using metadata_record_contents [of "[(''model_version'', PNone), (''output_tokens'', PInt 1120)]"
      "metadata_record ''a cat'' ''google'' ''gemini'' (PStr ''a cat'') (PStr '''') PNone
         (PStr ''1024x1024'') (PFloat 0) [(''model_version'', PNone), (''output_tokens'', PInt 1120)]"
      "''a cat''" "''google''" "''gemini''" "PStr ''a cat''" "PStr ''''" PNone
      "PStr ''1024x1024''" "PFloat 0" "''out''" "''imggen_001.png''"]
  by (simp add: metadata_record_def path_join_def rsplit_dot_head_def)

section \<open>Collecting the results\<close>



lemma fold_store_other:
  "j \<notin> fst ` set futs \<Longrightarrow>
   fold (\<lambda>(i, filename, result) m. m(i \<mapsto> (filename, result))) futs results j = results j"
  by (induction futs arbitrary: results) auto

lemma as_completed_Nil: "as_completed futures [] = []"
  by (simp add: as_completed_def map_filter_simps)

lemma as_completed_Cons:
  "as_completed futures (i # order) =
     (case map_of futures i of
        None \<Rightarrow> as_completed futures order
      | Some (filename, result) \<Rightarrow> (i, filename, result) # as_completed futures order)"
  by (simp add: as_completed_def map_filter_simps split: option.splits)



section \<open>Displaying the results\<close>


lemma display_slot_no_status:
  "results i = Some (filename, result) \<Longrightarrow> map_of result ''status'' = None \<Longrightarrow>
   display_slot p prompt output_dir variations results t i = Inl (KeyError ''status'')"
  by (simp add: display_slot_def)


lemma display_slot_successful:
  "display_slot p prompt output_dir variations results t i = Inr t' \<Longrightarrow>
   successful t' = successful t
      + (if slot_status results i = Some (PStr ''success'') then 1 else 0)"
  by (auto simp: display_slot_def slot_status_def split: option.splits if_splits)

lemma display_slot_failed:
  "display_slot p prompt output_dir variations results t i = Inr t' \<Longrightarrow>
   failed t' = failed t
      + (if results i \<noteq> None \<and> slot_status results i \<noteq> Some (PStr ''success'') then 1 else 0)"
  by (auto simp: display_slot_def slot_status_def split: option.splits if_splits)



section \<open>Exceptions of an adapter\<close>



section \<open>The order of the output\<close>








section \<open>The whole batch\<close>

lemma display_loop_counts:
  "display_loop p prompt output_dir variations results t slots = (None, t') \<Longrightarrow>
   successful t' = successful t
      + int (length (filter (\<lambda>i. slot_status results i = Some (PStr ''success'')) slots))
   \<and> failed t' = failed t
      + int (length (filter (\<lambda>i. results i \<noteq> None
                                 \<and> slot_status results i \<noteq> Some (PStr ''success'')) slots))"
proof (induction slots arbitrary: t)
  case Nil
  then show ?case by simp
next
  case (Cons i slots)
  show ?case
  proof (cases "display_slot p prompt output_dir variations results t i")
    case (Inl err)
    with Cons.prems show ?thesis by simp
  next
    case (Inr t1)
    with Cons.prems have "display_loop p prompt output_dir variations results t1 slots = (None, t')"
      by simp
    from Cons.IH [OF this] display_slot_successful [OF Inr] display_slot_failed [OF Inr]
    show ?thesis by simp
  qed
qed




lemma submit_loop_events:
  "map (\<lambda>(i, filename, result). Submit i (mk filename)) (submit_loop p mk slots)
     = map (\<lambda>i. Submit i (mk (''imggen_'' @ fmt_03d i @ ''.png''))) slots"
  by (induction slots) (simp_all add: Let_def)

lemma run_batch_unfold:
  assumes "1 \<le> variations"
  shows "run_batch p order prompt reference_images output_dir variations aspect_ratio quality
           resolution model input_fidelity cost_per_image
    = (case display_loop p prompt output_dir variations
              (fst (collect_results
                 (as_completed
                    (submit_loop p (slot_request prompt output_dir aspect_ratio resolution quality
                        reference_images model input_fidelity) [1..variations]) order) Map.empty))
              \<lparr>successful = 0, failed = 0, errors = [], shown = []\<rparr> [1..variations] of
         (raised, t) \<Rightarrow>
           (case raised of
              Some err \<Rightarrow>
                (Inl err,
                 map (\<lambda>i. Submit i (slot_request prompt output_dir aspect_ratio resolution quality
                        reference_images model input_fidelity (''imggen_'' @ fmt_03d i @ ''.png'')))
                   [1..variations] @ shown t)
            | None \<Rightarrow>
                (Inr (),
                 map (\<lambda>i. Submit i (slot_request prompt output_dir aspect_ratio resolution quality
                        reference_images model input_fidelity (''imggen_'' @ fmt_03d i @ ''.png'')))
                   [1..variations] @ shown t @
                 [PrintSummary (successful t) (failed t) (errors t)
                    (cost_per_image * of_int (successful t)) output_dir])))"
proof -
  from assms have "\<not> min 4 variations \<le> 0" by simp
  then show ?thesis
    by (simp only: run_batch_def Let_def split_beta submit_loop_events if_False)
qed

lemma run_batch_fails_without_slots:
  "\<not> 1 \<le> variations \<Longrightarrow>
   run_batch p order prompt reference_images output_dir variations aspect_ratio quality
           resolution model input_fidelity cost_per_image
     = (Inl (ValueError ''max_workers must be greater than 0''), [])"
  by (simp add: run_batch_def Let_def)

lemma pricing_cost_total: "\<exists>c. calculate_image_cost provider quality resolution = Inr c"
  using get_image_cost_total by (simp add: calculate_image_cost_def)

text \<open>
  Claim C7. In a run that reaches the summary, the actual cost shown is the per-image
  cost that \<open>calculate_image_cost\<close> gives for the provider and the requested quality and
  resolution, times the number of slots whose collected result has the status
  "success". The \<open>cost_usd\<close> entries of the results do not enter it.
\<close>

theorem actual_cost_is_estimate_times_successes:
  assumes "generate_from_prompt e exists order prompt reference_images output_dir variations
             provider_name api_key aspect_ratio quality resolution model input_fidelity False
           = (Inr (), effects)"
  shows "\<exists>name p cost_per_image collected failures error_lines.
           determine_provider e model provider_name api_key = Inr (name, p)
         \<and> calculate_image_cost (Some name) quality resolution = Inr cost_per_image
         \<and> collected = fst (collect_results
               (as_completed
                  (submit_loop p (slot_request prompt (rstrip_sep output_dir) aspect_ratio
                     resolution quality reference_images model input_fidelity) [1..variations])
                  order) Map.empty)
         \<and> last effects
             = PrintSummary
                 (int (length (filter (\<lambda>i. slot_status collected i = Some (PStr ''success''))
                                 [1..variations])))
                 failures error_lines
                 (cost_per_image
                    * of_int (int (length (filter
                         (\<lambda>i. slot_status collected i = Some (PStr ''success'')) [1..variations]))))
                 (rstrip_sep output_dir)"
proof -
  let ?dir = "rstrip_sep output_dir"
  have nocoll: "\<not> fst (check_file_collisions exists ?dir variations)"
  proof
    assume "fst (check_file_collisions exists ?dir variations)"
    then have "fst (generate_from_prompt e exists order prompt reference_images output_dir variations
             provider_name api_key aspect_ratio quality resolution model input_fidelity False)
           = Inl (ValueError (format_collision_error
               (snd (check_file_collisions exists ?dir variations)) ?dir))"
      by (simp add: generate_from_prompt_def Let_def split_beta)
    with assms show False by simp
  qed
  obtain name p where prov: "determine_provider e model provider_name api_key = Inr (name, p)"
  proof (cases "determine_provider e model provider_name api_key")
    case (Inl err)
    with nocoll have "fst (generate_from_prompt e exists order prompt reference_images output_dir
             variations provider_name api_key aspect_ratio quality resolution model
             input_fidelity False) = Inl err"
      by (simp add: generate_from_prompt_def Let_def split_beta)
    with assms show ?thesis by simp
  next
    case (Inr np)
    then show ?thesis using that by (cases np) simp
  qed
  obtain cost where cost: "calculate_image_cost (Some name) quality resolution = Inr cost"
    using pricing_cost_total by blast
  let ?batch = "run_batch p order prompt reference_images ?dir variations aspect_ratio quality
                  resolution model input_fidelity cost"
  have whole: "generate_from_prompt e exists order prompt reference_images output_dir variations
             provider_name api_key aspect_ratio quality resolution model input_fidelity False
           = (fst ?batch,
              PrintPreInfo variations name (prov_generate_model p) (cost * of_int variations) ?dir
                # snd ?batch)"
    using nocoll prov cost
    by (simp add: generate_from_prompt_def Let_def split_beta)
  with assms have ok: "fst ?batch = Inr ()"
    and eff: "effects = PrintPreInfo variations name (prov_generate_model p)
                          (cost * of_int variations) ?dir # snd ?batch"
    by simp_all
  have pos: "1 \<le> variations"
  proof (rule ccontr)
    assume "\<not> 1 \<le> variations"
    then have "fst ?batch = Inl (ValueError ''max_workers must be greater than 0'')"
      by (simp add: run_batch_fails_without_slots)
    with ok show False by simp
  qed
  let ?collected = "fst (collect_results
               (as_completed
                  (submit_loop p (slot_request prompt ?dir aspect_ratio
                     resolution quality reference_images model input_fidelity) [1..variations])
                  order) Map.empty)"
  obtain raised t where loop: "display_loop p prompt ?dir variations ?collected
              \<lparr>successful = 0, failed = 0, errors = [], shown = []\<rparr> [1..variations] = (raised, t)"
    by (cases "display_loop p prompt ?dir variations ?collected
              \<lparr>successful = 0, failed = 0, errors = [], shown = []\<rparr> [1..variations]")
  have none: "raised = None"
  proof (cases raised)
    case None
    then show ?thesis .
  next
    case (Some err)
    with loop ok show ?thesis
      by (simp add: run_batch_unfold [OF pos])
  qed
  from loop none have batch: "snd ?batch =
       map (\<lambda>i. Submit i (slot_request prompt ?dir aspect_ratio resolution quality
              reference_images model input_fidelity (''imggen_'' @ fmt_03d i @ ''.png'')))
         [1..variations] @ shown t @
       [PrintSummary (successful t) (failed t) (errors t) (cost * of_int (successful t)) ?dir]"
    by (simp add: run_batch_unfold [OF pos])
  from loop none display_loop_counts [of p prompt ?dir variations ?collected
      "\<lparr>successful = 0, failed = 0, errors = [], shown = []\<rparr>" "[1..variations]" t]
  have count: "successful t
      = int (length (filter (\<lambda>i. slot_status ?collected i = Some (PStr ''success''))
                       [1..variations]))"
    by simp
  have "last effects
      = PrintSummary (successful t) (failed t) (errors t) (cost * of_int (successful t)) ?dir"
    by (simp add: eff batch)
  with count have "last effects
             = PrintSummary
                 (int (length (filter (\<lambda>i. slot_status ?collected i = Some (PStr ''success''))
                                 [1..variations])))
                 (failed t) (errors t)
                 (cost
                    * of_int (int (length (filter
                         (\<lambda>i. slot_status ?collected i = Some (PStr ''success'')) [1..variations]))))
                 ?dir"
    by simp
  with prov cost show ?thesis by blast
qed

lemmas demo_run_defs = generate_from_prompt_def check_file_collisions_filter determine_provider_def
  demo_env_def calculate_image_cost_def pricing_defs run_batch_def upto_1_cases fmt_03d_small
  generate_single_image_def demo_provider_def limited_provider_def demo_success_def
  slot_request_def as_completed_Nil as_completed_Cons dict_get_def dict_get_default_def
  display_slot_def rstrip_sep_def path_join_def Let_def

theorem actual_cost_is_estimate_times_successes_witness:
  "fst (generate_from_prompt (demo_env demo_provider) (\<lambda>path. False) [3, 1, 4, 2] ''a cat'' []
          ''out/'' 4 ''openai'' ''key'' None None None None None False) = Inr ()
   \<and> last (snd (generate_from_prompt (demo_env demo_provider) (\<lambda>path. False) [3, 1, 4, 2]
          ''a cat'' [] ''out/'' 4 ''openai'' ''key'' None None None None None False))
       = PrintSummary 3 1 [(''imggen_003.png'', PStr ''connection reset'')] (27 / 1000) ''out''
   \<and> (27 / 1000 :: real) = 9 / 1000 * 3
   \<and> (27 / 1000 :: real) \<noteq> 2 / 10 + 2 / 10 + 2 / 10"
proof -
  let ?run = "generate_from_prompt (demo_env demo_provider) (\<lambda>path. False) [3, 1, 4, 2] ''a cat'' []
          ''out/'' 4 ''openai'' ''key'' None None None None None False"
  have outcome: "fst ?run = Inr ()"
    by (simp add: demo_run_defs)
  have summary: "last (snd ?run)
       = PrintSummary 3 1 [(''imggen_003.png'', PStr ''connection reset'')] (27 / 1000) ''out''"
    by (simp add: demo_run_defs)
  have hyp: "?run = (Inr (), snd ?run)"
    using outcome by (simp add: prod_eq_iff)
  have arith: "(27 / 1000 :: real) = 9 / 1000 * 3" "(27 / 1000 :: real) \<noteq> 2 / 10 + 2 / 10 + 2 / 10"
    by simp_all
  from actual_cost_is_estimate_times_successes [OF hyp]
  show ?thesis
    by (intro conjI) (rule outcome, rule summary, rule arith(1), rule arith(2))
qed

section \<open>The rate-limit stop\<close>





end
